theory Spec2Isabelle
  imports Complex_Main "HOL-Library.Sublist"
begin

section \<open>Python values shared by both modules\<close>

text \<open>
  Exceptions are values.  The constructors are the exception classes the two source files
  raise or catch by name; \<open>Other_exn\<close> stands for every other class (its first
  argument) that a library call may raise, none of them derived from
  \<open>ModuleNotFoundError\<close>.  Each carries its message.
\<close>

datatype py_exn =
    ValueError string
  | ImportError string
  | ModuleNotFoundError string
  | UnboundLocalError string
  | Other_exn string string

section \<open>\<open>element_property_fingerprint.py\<close>\<close>

subsection \<open>Arrays of floats\<close>

text \<open>
  An entry of a float64 array is a NaN, one of the two infinities, or a finite number.
  No arithmetic is done on the entries here, so the payload of \<open>Finite\<close> is a real.
\<close>

datatype npfloat = NaN | PosInf | NegInf | Finite real

text \<open>The largest finite float64, \<open>numpy.finfo(float64).max\<close>.\<close>

definition float64_max :: real where
  "float64_max = (2 ^ 53 - 1) * 2 ^ 971"

text \<open>
  \<open>numpy.nan_to_num\<close> with its default arguments: NaN becomes 0.0, the infinities become
  the largest and the smallest finite float, everything else stays.
\<close>

fun nan_to_num1 :: "npfloat \<Rightarrow> npfloat" where
  "nan_to_num1 NaN = Finite 0"
| "nan_to_num1 PosInf = Finite float64_max"
| "nan_to_num1 NegInf = Finite (- float64_max)"
| "nan_to_num1 (Finite x) = Finite x"

definition nan_to_num :: "npfloat list \<Rightarrow> npfloat list" where
  "nan_to_num feats = map nan_to_num1 feats"

subsection \<open>The matminer library\<close>

text \<open>
  matminer is not part of the repository.  It is a parameter of the model:
  \<^item> \<open>import_ElementProperty\<close> is the exception, if any, that the statement
    \<^verbatim>\<open>from matminer.featurizers.composition import ElementProperty\<close> raises
    (Python raises \<open>ModuleNotFoundError\<close> when the package is not installed);
  \<^item> \<open>ElementProperty_from_preset\<close> is \<^verbatim>\<open>ElementProperty.from_preset\<close>;
  \<^item> \<open>ElementProperty_featurize\<close> is the engine's \<^verbatim>\<open>featurize\<close> method, which returns a
    list of floats or raises.
  \<open>'e\<close> is the type of engines, \<open>'c\<close> the type of compositions.
\<close>

record ('e, 'c) matminer =
  import_ElementProperty :: "py_exn option"
  ElementProperty_from_preset :: "string \<Rightarrow> py_exn + 'e"
  ElementProperty_featurize :: "'e \<Rightarrow> 'c \<Rightarrow> py_exn + npfloat list"

subsection \<open>The featurizer\<close>

record 'e ElementPropertyFingerprint =
  data_source :: string
  ep_featurizer :: "'e option"

text \<open>\<^verbatim>\<open>__init__\<close> (lines 52 to 60).\<close>

definition ElementPropertyFingerprint_init :: "string \<Rightarrow> 'e ElementPropertyFingerprint" where
  "ElementPropertyFingerprint_init ds = \<lparr>data_source = ds, ep_featurizer = None\<rparr>"

text \<open>
  The handler of lines 81 and 82: a \<open>ModuleNotFoundError\<close> raised inside the \<^verbatim>\<open>try\<close>
  block is replaced by an \<open>ImportError\<close>; any other exception leaves the block as it is.
\<close>

fun except_ModuleNotFoundError :: "py_exn \<Rightarrow> py_exn" where
  "except_ModuleNotFoundError (ModuleNotFoundError m) =
     ImportError ''This class requires matminer to be installed.''"
| "except_ModuleNotFoundError e = e"

text \<open>
  \<^verbatim>\<open>_featurize\<close> (lines 62 to 89).  The result is the outcome of the call (the exception
  raised or the array returned) and the featurizer after the call.
\<close>

definition featurize ::
  "('e, 'c) matminer \<Rightarrow> 'e ElementPropertyFingerprint \<Rightarrow> 'c
     \<Rightarrow> (py_exn + npfloat list) \<times> 'e ElementPropertyFingerprint" where
  "featurize mm self composition =
     (case
        (case ep_featurizer self of
           None \<Rightarrow>
             (case import_ElementProperty mm of
                Some e \<Rightarrow> Inl (except_ModuleNotFoundError e)
              | None \<Rightarrow>
                  (case ElementProperty_from_preset mm (data_source self) of
                     Inl e \<Rightarrow> Inl (except_ModuleNotFoundError e)
                   | Inr engine \<Rightarrow> Inr (self\<lparr>ep_featurizer := Some engine\<rparr>, engine)))
         | Some engine \<Rightarrow> Inr (self, engine))
      of
        Inl e \<Rightarrow> (Inl e, self)
      | Inr (self', engine) \<Rightarrow>
          let feats = (case ElementProperty_featurize mm engine composition of
                         Inl e \<Rightarrow> []
                       | Inr feats \<Rightarrow> feats)
          in (Inr (nan_to_num feats), self'))"

subsection \<open>A concrete library for the examples\<close>

text \<open>
  Engines are preset names, compositions are formulas.  The three presets exist; the
  engine raises on the formula \<open>''Xx''\<close> and returns a vector with a NaN and an infinity
  otherwise.
\<close>

definition mm_installed :: "(string, string) matminer" where
  "mm_installed =
     \<lparr>import_ElementProperty = None,
      ElementProperty_from_preset =
        (\<lambda>ds. if ds \<in> set [''matminer'', ''magpie'', ''deml''] then Inr ds
              else Inl (ValueError ''Invalid preset'')),
      ElementProperty_featurize =
        (\<lambda>engine c. if c = ''Xx'' then Inl (Other_exn ''KeyError'' ''Xx'')
                     else Inr [Finite 1, NaN, PosInf])\<rparr>"

definition mm_missing :: "(string, string) matminer" where
  "mm_missing =
     mm_installed\<lparr>import_ElementProperty :=
       Some (ModuleNotFoundError ''No module named matminer'')\<rparr>"

section \<open>\<open>uspto_datasets.py\<close>\<close>

subsection \<open>Constants\<close>

definition USPTO_MIT_URL :: string where
  "USPTO_MIT_URL = ''https://deepchemdata.s3.us-west-1.amazonaws.com/datasets/USPTO_MIT.csv''"

definition USPTO_STEREO_URL :: string where
  "USPTO_STEREO_URL = ''https://deepchemdata.s3.us-west-1.amazonaws.com/datasets/USPTO_STEREO.csv''"

definition USPTO_50K_URL :: string where
  "USPTO_50K_URL = ''https://deepchemdata.s3.us-west-1.amazonaws.com/datasets/USPTO_50K.csv''"

definition USPTO_FULL_URL :: string where
  "USPTO_FULL_URL = ''https://deepchemdata.s3.us-west-1.amazonaws.com/datasets/USPTO_FULL.csv''"

definition USPTO_TASK :: "string list" where
  "USPTO_TASK = []"

subsection \<open>The loader object\<close>

text \<open>
  A value of the \<open>splitter\<close> attribute is \<^verbatim>\<open>None\<close>, a string or a splitter object.
  Python's \<^verbatim>\<open>self.splitter == 'SpecifiedSplitter'\<close> holds only of the string with these
  characters: a splitter object, also one of the class \<^verbatim>\<open>SpecifiedSplitter\<close>, is not
  equal to a string.  The attribute of a loader that \<open>load_uspto\<close> builds is
  \<^verbatim>\<open>None\<close> or an object: a splitter passed as a string is a shortcut name
  (docstring, lines 105 to 109) that is replaced by the splitter object before it is
  stored.
\<close>

datatype 'sp py_splitter = Splitter_None | Splitter_str string | Splitter_obj 'sp

text \<open>
  The attributes that the base class initialiser stores and \<open>create_dataset\<close> reads.
  The base class \<^verbatim>\<open>_MolnetLoader\<close> is not among the sources; what its initialiser stored
  is a parameter of the model.
\<close>

record ('f, 'sp) MolnetLoader =
  featurizer :: 'f
  splitter :: "'sp py_splitter"
  tasks :: "string list"
  data_dir :: string

record ('f, 'sp) USPTOLoader = "('f, 'sp) MolnetLoader" +
  subset_name :: string
  sep_reagent :: bool
  name :: string

text \<open>\<^verbatim>\<open>__init__\<close> (lines 28 to 32), after the base class initialiser has run.\<close>

definition USPTOLoader_init ::
  "('f, 'sp) MolnetLoader \<Rightarrow> string \<Rightarrow> bool \<Rightarrow> ('f, 'sp) USPTOLoader" where
  "USPTOLoader_init base sub sep =
     \<lparr>featurizer = featurizer base, splitter = splitter base, tasks = tasks base,
      data_dir = data_dir base,
      subset_name = sub, sep_reagent = sep, name = ''USPTO_'' @ sub\<rparr>"

subsection \<open>The world outside\<close>

text \<open>\<^verbatim>\<open>os.path.join\<close> of two components, as \<^verbatim>\<open>posixpath\<close> defines it.\<close>

definition os_path_join :: "string \<Rightarrow> string \<Rightarrow> string" where
  "os_path_join a b =
     (if prefix ''/'' b then b
      else if a = [] \<or> suffix ''/'' a then a @ b
      else a @ ''/'' @ b)"

text \<open>
  The calls \<open>create_dataset\<close> makes to the outside are recorded, in order: the two
  \<^verbatim>\<open>logger.info\<close> lines, \<^verbatim>\<open>download_url(url, dest_dir)\<close>, the construction
  \<^verbatim>\<open>CSVLoader(tasks, feature_field, featurizer)\<close> and the loader's
  \<^verbatim>\<open>create_dataset(file, shard_size)\<close>.
\<close>

datatype 'f event =
    Log_info string
  | Download_url string string
  | CSVLoader_new "string list" string 'f
  | Loader_create_dataset string nat

fun is_download :: "'f event \<Rightarrow> bool" where
  "is_download (Download_url url dest_dir) = True"
| "is_download ev = False"

fun is_csv :: "'f event \<Rightarrow> bool" where
  "is_csv (CSVLoader_new ts field f) = True"
| "is_csv (Loader_create_dataset file shard_size) = True"
| "is_csv ev = False"

text \<open>The world: the file system and the calls made so far.\<close>

record ('fs, 'f) world =
  fs :: 'fs
  effects :: "'f event list"

definition emit :: "'f event \<Rightarrow> ('fs, 'f) world \<Rightarrow> ('fs, 'f) world" where
  "emit ev w = w\<lparr>effects := effects w @ [ev]\<rparr>"

text \<open>
  What lies outside the two source files is a parameter of the model:
  \<^item> \<open>os_path_exists\<close> is \<^verbatim>\<open>os.path.exists\<close> on a file system;
  \<^item> \<open>download_url\<close> is \<^verbatim>\<open>dc.utils.data_utils.download_url\<close>: the exception it raises, if
    any, and the file system it leaves;
  \<^item> \<open>CSVLoader\<close> is the constructor of \<^verbatim>\<open>dc.data.CSVLoader\<close>;
  \<^item> \<open>CSVLoader_create_dataset\<close> is its \<^verbatim>\<open>create_dataset\<close> method: the dataset or the
    exception, and the file system it leaves.
\<close>

record ('fs, 'f, 'ld, 'd) externals =
  os_path_exists :: "'fs \<Rightarrow> string \<Rightarrow> bool"
  download_url :: "string \<Rightarrow> string \<Rightarrow> 'fs \<Rightarrow> py_exn option \<times> 'fs"
  CSVLoader :: "string list \<Rightarrow> string \<Rightarrow> 'f \<Rightarrow> py_exn + 'ld"
  CSVLoader_create_dataset :: "'ld \<Rightarrow> string \<Rightarrow> nat \<Rightarrow> 'fs \<Rightarrow> (py_exn + 'd) \<times> 'fs"

subsection \<open>\<open>create_dataset\<close>\<close>

text \<open>
  \<^verbatim>\<open>_USPTOLoader.create_dataset\<close> (lines 34 to 64), in the three blocks it is written in.

  Lines 35 to 52: the check of \<open>subset\<close> and the choice of the URL.  \<open>dataset_url\<close> is a
  local variable that the four \<^verbatim>\<open>if\<close> statements may bind; the result is the exception
  raised, or the binding of \<open>dataset_url\<close> the block leaves.
\<close>

definition select_url :: "('f, 'sp) USPTOLoader \<Rightarrow> py_exn + string option" where
  "select_url self =
     (if subset_name self \<notin> set [''MIT'', ''STEREO'', ''50K'', ''FULL''] then
        Inl (ValueError ''Valid Subset names are MIT, STEREO and 50K.'')
      else
        let dataset_url = None;
            dataset_url = (if subset_name self = ''MIT'' then Some USPTO_MIT_URL
                           else dataset_url);
            dataset_url = (if subset_name self = ''STEREO'' then Some USPTO_STEREO_URL
                           else dataset_url);
            dataset_url = (if subset_name self = ''50K'' then Some USPTO_50K_URL
                           else dataset_url)
        in
          if subset_name self = ''FULL'' then
            (if splitter self = Splitter_str ''SpecifiedSplitter'' then
               Inl (ValueError
                 ''There is no pre computed split for the full dataset, use a custom split instead!'')
             else Inr (Some USPTO_FULL_URL))
          else Inr dataset_url)"

text \<open>
  Lines 56 to 59: the download when the file does not exist.  The result is the exception
  raised, if any, and the world after the block.  Reading \<open>dataset_url\<close> unbound raises.
\<close>

definition download_if_absent ::
  "('fs, 'f, 'ld, 'd) externals \<Rightarrow> ('f, 'sp) USPTOLoader \<Rightarrow> string option \<Rightarrow> string
     \<Rightarrow> ('fs, 'f) world \<Rightarrow> py_exn option \<times> ('fs, 'f) world" where
  "download_if_absent ex self dataset_url dataset_file w =
     (if \<not> os_path_exists ex (fs w) dataset_file then
        (let w1 = emit (Log_info ''Downloading dataset...'') w in
         case dataset_url of
           None \<Rightarrow> (Some (UnboundLocalError ''dataset_url''), w1)
         | Some url \<Rightarrow>
             (let w2 = emit (Download_url url (data_dir self)) w1;
                  (raised, fs') = download_url ex url (data_dir self) (fs w2);
                  w3 = w2\<lparr>fs := fs'\<rparr>
              in case raised of
                   Some e \<Rightarrow> (Some e, w3)
                 | None \<Rightarrow> (None, emit (Log_info ''Dataset download complete.'') w3)))
      else (None, w))"

text \<open>Lines 61 to 64: the CSV loader is built and run on the file.\<close>

definition load_csv ::
  "('fs, 'f, 'ld, 'd) externals \<Rightarrow> ('f, 'sp) USPTOLoader \<Rightarrow> string
     \<Rightarrow> ('fs, 'f) world \<Rightarrow> (py_exn + 'd) \<times> ('fs, 'f) world" where
  "load_csv ex self dataset_file w =
     (let w1 = emit (CSVLoader_new (tasks self) ''reactions'' (featurizer self)) w in
      case CSVLoader ex (tasks self) ''reactions'' (featurizer self) of
        Inl e \<Rightarrow> (Inl e, w1)
      | Inr loader \<Rightarrow>
          (let w2 = emit (Loader_create_dataset dataset_file 8192) w1;
               (result, fs') = CSVLoader_create_dataset ex loader dataset_file 8192 (fs w2)
           in (result, w2\<lparr>fs := fs'\<rparr>)))"

text \<open>The method: the outcome of the call and the world after it.\<close>

definition create_dataset ::
  "('fs, 'f, 'ld, 'd) externals \<Rightarrow> ('f, 'sp) USPTOLoader \<Rightarrow> ('fs, 'f) world
     \<Rightarrow> (py_exn + 'd) \<times> ('fs, 'f) world" where
  "create_dataset ex self w =
     (case select_url self of
        Inl e \<Rightarrow> (Inl e, w)
      | Inr dataset_url \<Rightarrow>
          (let dataset_file = os_path_join (data_dir self) (name self @ ''.csv'') in
           case download_if_absent ex self dataset_url dataset_file w of
             (Some e, w1) \<Rightarrow> (Inl e, w1)
           | (None, w1) \<Rightarrow> load_csv ex self dataset_file w1))"

subsection \<open>A concrete world for the examples\<close>

text \<open>
  A file system is the list of the paths that exist.  Downloading succeeds and creates
  the file named by the last component of the URL in the directory; a CSV loader is the
  triple it was built from, and the dataset it creates is named after the file it read.
\<close>

definition ex_online :: "(string list, string, string list \<times> string \<times> string, string) externals" where
  "ex_online =
     \<lparr>os_path_exists = (\<lambda>files path. path \<in> set files),
      download_url = (\<lambda>url dest_dir files.
         (None, os_path_join dest_dir (rev (takeWhile (\<lambda>c. c \<noteq> CHR ''/'') (rev url))) # files)),
      CSVLoader = (\<lambda>ts field f. Inr (ts, field, f)),
      CSVLoader_create_dataset = (\<lambda>loader file shard_size files.
         (if file \<in> set files then Inr (''dataset of '' @ file)
          else Inl (Other_exn ''FileNotFoundError'' file), files))\<rparr>"

definition base_dummy :: "(string, unit) MolnetLoader" where
  "base_dummy =
     \<lparr>featurizer = ''DummyFeaturizer'', splitter = Splitter_None, tasks = USPTO_TASK,
      data_dir = ''data''\<rparr>"

text \<open>
  A loader whose splitter is an object of the class \<^verbatim>\<open>SpecifiedSplitter\<close>; the object is
  represented by the name of its class.
\<close>

definition base_specified :: "(string, string) MolnetLoader" where
  "base_specified =
     \<lparr>featurizer = ''DummyFeaturizer'', splitter = Splitter_obj ''SpecifiedSplitter'',
      tasks = USPTO_TASK, data_dir = ''data''\<rparr>"

definition world_empty :: "(string list, string) world" where
  "world_empty = \<lparr>fs = [], effects = []\<rparr>"

definition world_cached :: "(string list, string) world" where
  "world_cached = \<lparr>fs = [''data/USPTO_50K.csv''], effects = []\<rparr>"

definition loader_50K :: "(string, unit) USPTOLoader" where
  "loader_50K = USPTOLoader_init base_dummy ''50K'' True"

definition loader_full_specified :: "(string, string) USPTOLoader" where
  "loader_full_specified = USPTOLoader_init base_specified ''FULL'' True"

definition loader_full :: "(string, unit) USPTOLoader" where
  "loader_full = USPTOLoader_init base_dummy ''FULL'' True"

definition loader_bogus :: "(string, unit) USPTOLoader" where
  "loader_bogus = USPTOLoader_init base_dummy ''BOGUS'' True"

section \<open>Properties of the featurizer\<close>

lemma nan_to_num1_not_NaN: "nan_to_num1 x \<noteq> NaN"
  by (cases x) simp_all

lemma NaN_notin_nan_to_num: "NaN \<notin> set (nan_to_num feats)"
  by (induction feats) (simp_all add: nan_to_num_def nan_to_num1_not_NaN [symmetric])

lemma length_nan_to_num: "length (nan_to_num feats) = length feats"
  by (simp add: nan_to_num_def)

lemma nth_nan_to_num: "i < length feats \<Longrightarrow> nan_to_num feats ! i = nan_to_num1 (feats ! i)"
  by (simp add: nan_to_num_def)

text \<open>
  What a call does once the engine is there, either cached on the instance or built by
  the call from the configured preset.
\<close>

lemma featurize_with_engine:
  assumes "ep_featurizer self = Some engine \<or>
           (ep_featurizer self = None \<and> import_ElementProperty mm = None \<and>
            ElementProperty_from_preset mm (data_source self) = Inr engine)"
  shows "featurize mm self c =
           (Inr (nan_to_num (case ElementProperty_featurize mm engine c of
                               Inl e \<Rightarrow> [] | Inr feats \<Rightarrow> feats)),
            self\<lparr>ep_featurizer := Some engine\<rparr>)"
  using assms by (auto simp: featurize_def)

lemma featurize_returns_nan_to_num:
  assumes "fst (featurize mm self c) = Inr v"
  shows "\<exists>feats. v = nan_to_num feats"
  using assms
  by (auto simp: featurize_def split: option.splits sum.splits)

text \<open>
  C1.  Whenever \<open>_featurize\<close> returns a vector, the vector has no NaN entry.  It does
  return one whenever the engine is there (cached, or built by this call because the
  library imports and the preset of \<open>data_source\<close> exists), whatever the composition;
  the vector then has the length of the engine's result, with 0.0 at every position
  where the engine produced a NaN.
\<close>

theorem featurize_no_NaN:
  "(fst (featurize mm self c) = Inr v \<longrightarrow> NaN \<notin> set v) \<and>
   ((ep_featurizer self = Some engine \<or>
     (ep_featurizer self = None \<and> import_ElementProperty mm = None \<and>
      ElementProperty_from_preset mm (data_source self) = Inr engine)) \<longrightarrow>
    (\<exists>v'. fst (featurize mm self c) = Inr v' \<and> NaN \<notin> set v' \<and>
       (\<forall>feats. ElementProperty_featurize mm engine c = Inr feats \<longrightarrow>
          length v' = length feats \<and>
          (\<forall>i<length feats. feats ! i = NaN \<longrightarrow> v' ! i = Finite 0))))"
proof (intro conjI impI)
  assume ret: "fst (featurize mm self c) = Inr v"
  from featurize_returns_nan_to_num [OF ret]
  obtain feats where "v = nan_to_num feats" ..
  then show "NaN \<notin> set v"
    by (simp add: NaN_notin_nan_to_num)
next
  assume ready: "ep_featurizer self = Some engine \<or>
     (ep_featurizer self = None \<and> import_ElementProperty mm = None \<and>
      ElementProperty_from_preset mm (data_source self) = Inr engine)"
  let ?xs = "case ElementProperty_featurize mm engine c of Inl e \<Rightarrow> [] | Inr feats \<Rightarrow> feats"
  have ret: "fst (featurize mm self c) = Inr (nan_to_num ?xs)"
    by (simp add: featurize_with_engine [OF ready])
  have subst: "\<forall>feats. ElementProperty_featurize mm engine c = Inr feats \<longrightarrow>
          length (nan_to_num ?xs) = length feats \<and>
          (\<forall>i<length feats. feats ! i = NaN \<longrightarrow> nan_to_num ?xs ! i = Finite 0)"
    by (simp add: length_nan_to_num nth_nan_to_num)
  from ret subst NaN_notin_nan_to_num
  show "\<exists>v'. fst (featurize mm self c) = Inr v' \<and> NaN \<notin> set v' \<and>
       (\<forall>feats. ElementProperty_featurize mm engine c = Inr feats \<longrightarrow>
          length v' = length feats \<and>
          (\<forall>i<length feats. feats ! i = NaN \<longrightarrow> v' ! i = Finite 0))"
    by blast
qed

theorem featurize_no_NaN_witness:
  "ep_featurizer (ElementPropertyFingerprint_init ''magpie'' :: string ElementPropertyFingerprint)
     = None \<and>
   import_ElementProperty mm_installed = None \<and>
   ElementProperty_from_preset mm_installed ''magpie'' = Inr ''magpie'' \<and>
   ElementProperty_featurize mm_installed ''magpie'' ''Fe2O3'' = Inr [Finite 1, NaN, PosInf] \<and>
   fst (featurize mm_installed (ElementPropertyFingerprint_init ''magpie'') ''Fe2O3'')
     = Inr [Finite 1, Finite 0, Finite float64_max] \<and>
   NaN \<notin> set [Finite 1, Finite 0, Finite float64_max] \<and>
   (\<exists>v'. fst (featurize mm_installed (ElementPropertyFingerprint_init ''magpie'') ''Fe2O3'')
            = Inr v' \<and> NaN \<notin> set v' \<and> length v' = 3 \<and> v' ! 1 = Finite 0)"
proof -
  let ?self = "ElementPropertyFingerprint_init ''magpie'' :: string ElementPropertyFingerprint"
  have fresh: "ep_featurizer ?self = None"
    by (simp add: ElementPropertyFingerprint_init_def)
  have imported: "import_ElementProperty mm_installed = None"
    by (simp add: mm_installed_def)
  have preset: "ElementProperty_from_preset mm_installed ''magpie'' = Inr ''magpie''"
    by (simp add: mm_installed_def)
  have ds: "data_source ?self = ''magpie''"
    by (simp add: ElementPropertyFingerprint_init_def)
  have computed: "ElementProperty_featurize mm_installed ''magpie'' ''Fe2O3''
      = Inr [Finite 1, NaN, PosInf]"
    by (simp add: mm_installed_def)
  have ret: "fst (featurize mm_installed ?self ''Fe2O3'')
      = Inr [Finite 1, Finite 0, Finite float64_max]"
    by (simp add: featurize_def mm_installed_def ElementPropertyFingerprint_init_def
        nan_to_num_def)
  note inst = featurize_no_NaN [of mm_installed ?self "''Fe2O3''"
      "[Finite 1, Finite 0, Finite float64_max]" "''magpie''"]
  from inst ret have clean: "NaN \<notin> set [Finite 1, Finite 0, Finite float64_max]"
    by blast
  from inst fresh imported preset ds
  obtain v' where v': "fst (featurize mm_installed ?self ''Fe2O3'') = Inr v'" "NaN \<notin> set v'"
    "\<forall>feats. ElementProperty_featurize mm_installed ''magpie'' ''Fe2O3'' = Inr feats \<longrightarrow>
       length v' = length feats \<and> (\<forall>i<length feats. feats ! i = NaN \<longrightarrow> v' ! i = Finite 0)"
    by auto
  from v'(3) computed have "length v' = 3 \<and> v' ! 1 = Finite 0"
    by simp
  with v'(1,2) fresh imported preset computed ret clean show ?thesis
    by blast
qed

text \<open>
  C2.  When the engine's computation raises, whatever the exception, \<open>_featurize\<close>
  raises nothing and returns the empty vector.
\<close>

theorem featurize_engine_failure_empty:
  assumes "ep_featurizer self = Some engine \<or>
           (ep_featurizer self = None \<and> import_ElementProperty mm = None \<and>
            ElementProperty_from_preset mm (data_source self) = Inr engine)"
    and "ElementProperty_featurize mm engine c = Inl e"
  shows "fst (featurize mm self c) = Inr []"
  using assms(2) by (simp add: featurize_with_engine [OF assms(1)] nan_to_num_def)

theorem featurize_engine_failure_empty_witness:
  "ElementProperty_featurize mm_installed ''deml'' ''Xx'' = Inl (Other_exn ''KeyError'' ''Xx'') \<and>
   fst (featurize mm_installed (ElementPropertyFingerprint_init ''deml'') ''Xx'') = Inr []"
proof -
  have ready: "ep_featurizer (ElementPropertyFingerprint_init ''deml'') = Some ''deml'' \<or>
      (ep_featurizer (ElementPropertyFingerprint_init ''deml'') = None \<and>
       import_ElementProperty mm_installed = None \<and>
       ElementProperty_from_preset mm_installed
         (data_source (ElementPropertyFingerprint_init ''deml'')) = Inr ''deml'')"
    by (simp add: mm_installed_def ElementPropertyFingerprint_init_def)
  have raises: "ElementProperty_featurize mm_installed ''deml'' ''Xx''
      = Inl (Other_exn ''KeyError'' ''Xx'')"
    by (simp add: mm_installed_def)
  from featurize_engine_failure_empty [OF ready raises] raises
  show ?thesis by blast
qed

text \<open>
  C6.  On an instance whose engine is not built yet, when importing matminer raises
  \<open>ModuleNotFoundError\<close>, \<open>_featurize\<close> raises an \<open>ImportError\<close>; its message
  names matminer and says that it has to be installed.
\<close>

theorem featurize_missing_matminer:
  assumes "ep_featurizer self = None"
    and "import_ElementProperty mm = Some (ModuleNotFoundError m)"
  shows "\<exists>msg. fst (featurize mm self c) = Inl (ImportError msg) \<and>
           msg = ''This class requires matminer to be installed.'' \<and>
           sublist ''matminer'' msg \<and> sublist ''to be installed'' msg"
proof -
  have "fst (featurize mm self c)
      = Inl (ImportError ''This class requires matminer to be installed.'')"
    using assms by (simp add: featurize_def)
  moreover have "sublist ''matminer'' ''This class requires matminer to be installed.''"
    by code_simp
  moreover have "sublist ''to be installed'' ''This class requires matminer to be installed.''"
    by code_simp
  ultimately show ?thesis by blast
qed

theorem featurize_missing_matminer_witness:
  "import_ElementProperty mm_missing = Some (ModuleNotFoundError ''No module named matminer'') \<and>
   fst (featurize mm_missing (ElementPropertyFingerprint_init ''matminer'') ''Fe2O3'')
     = Inl (ImportError ''This class requires matminer to be installed.'')"
proof -
  have fresh: "ep_featurizer (ElementPropertyFingerprint_init ''matminer'' ::
      string ElementPropertyFingerprint) = None"
    by (simp add: ElementPropertyFingerprint_init_def)
  have missing: "import_ElementProperty mm_missing
      = Some (ModuleNotFoundError ''No module named matminer'')"
    by (simp add: mm_missing_def)
  from featurize_missing_matminer [OF fresh missing, of "''Fe2O3''"] missing
  show ?thesis by blast
qed

text \<open>
  C7.  A second call on the instance the first call leaves behind, with the same
  composition, has the outcome of the first call and leaves the instance as it is.
\<close>

theorem featurize_twice:
  "fst (featurize mm (snd (featurize mm self c)) c) = fst (featurize mm self c) \<and>
   snd (featurize mm (snd (featurize mm self c)) c) = snd (featurize mm self c)"
  by (simp add: featurize_def split: option.split sum.split)

theorem featurize_twice_witness:
  "fst (featurize mm_installed
         (snd (featurize mm_installed (ElementPropertyFingerprint_init ''magpie'') ''Fe2O3''))
         ''Fe2O3'')
     = Inr [Finite 1, Finite 0, Finite float64_max]"
proof -
  have first: "fst (featurize mm_installed (ElementPropertyFingerprint_init ''magpie'') ''Fe2O3'')
     = Inr [Finite 1, Finite 0, Finite float64_max]"
    by (simp add: featurize_def mm_installed_def ElementPropertyFingerprint_init_def
        nan_to_num_def)
  from featurize_twice [of mm_installed "ElementPropertyFingerprint_init ''magpie''" "''Fe2O3''"]
    first
  show ?thesis by simp
qed

section \<open>Properties of the loader\<close>

subsection \<open>The three blocks\<close>

lemma fs_emit [simp]: "fs (emit ev w) = fs w"
  by (simp add: emit_def)

lemma effects_emit [simp]: "effects (emit ev w) = effects w @ [ev]"
  by (simp add: emit_def)

lemma select_url_invalid:
  "subset_name self \<notin> set [''MIT'', ''STEREO'', ''50K'', ''FULL''] \<Longrightarrow>
   select_url self = Inl (ValueError ''Valid Subset names are MIT, STEREO and 50K.'')"
  by (simp add: select_url_def)

lemma select_url_full_specified:
  "subset_name self = ''FULL'' \<Longrightarrow> splitter self = Splitter_str ''SpecifiedSplitter'' \<Longrightarrow>
   select_url self = Inl (ValueError
     ''There is no pre computed split for the full dataset, use a custom split instead!'')"
  by (simp add: select_url_def)

lemma select_url_accepted:
  assumes "map_of [(''MIT'', USPTO_MIT_URL), (''STEREO'', USPTO_STEREO_URL),
                   (''50K'', USPTO_50K_URL), (''FULL'', USPTO_FULL_URL)] (subset_name self) = Some url"
    and "\<not> (subset_name self = ''FULL'' \<and> splitter self = Splitter_str ''SpecifiedSplitter'')"
  shows "select_url self = Inr (Some url)"
  using assms by (auto simp: select_url_def split: if_splits)

lemma select_url_full_other:
  "subset_name self = ''FULL'' \<Longrightarrow> splitter self \<noteq> Splitter_str ''SpecifiedSplitter'' \<Longrightarrow>
   select_url self = Inr (Some USPTO_FULL_URL)"
  by (simp add: select_url_def)

lemma select_url_sep: "select_url (self\<lparr>sep_reagent := b\<rparr>) = select_url self"
  by (simp add: select_url_def)

lemma download_if_absent_sep:
  "download_if_absent ex (self\<lparr>sep_reagent := b\<rparr>) u f w = download_if_absent ex self u f w"
  by (simp add: download_if_absent_def Let_def split: option.split prod.split)

lemma load_csv_sep: "load_csv ex (self\<lparr>sep_reagent := b\<rparr>) f w = load_csv ex self f w"
  by (simp add: load_csv_def)

lemma downloads_download_if_absent:
  "filter is_download (effects (snd (download_if_absent ex self (Some url) file w))) =
   filter is_download (effects w) @
     (if os_path_exists ex (fs w) file then [] else [Download_url url (data_dir self)])"
  by (simp add: download_if_absent_def Let_def split: option.split prod.split)

lemma downloads_load_csv:
  "filter is_download (effects (snd (load_csv ex self file w))) = filter is_download (effects w)"
  by (simp add: load_csv_def Let_def split: sum.split prod.split)

lemma csv_download_if_absent:
  "filter is_csv (effects (snd (download_if_absent ex self u file w))) = filter is_csv (effects w)"
  by (simp add: download_if_absent_def Let_def split: option.split prod.split)

lemma csv_load_csv:
  "filter is_csv (effects (snd (load_csv ex self file w))) =
   filter is_csv (effects w) @
     (CSVLoader_new (tasks self) ''reactions'' (featurizer self) #
      (case CSVLoader ex (tasks self) ''reactions'' (featurizer self) of
         Inl e \<Rightarrow> [] | Inr loader \<Rightarrow> [Loader_create_dataset file 8192]))"
  by (simp add: load_csv_def Let_def split: sum.split prod.split)

lemma effects_download_if_absent_grow:
  "length (effects w) \<le> length (effects (snd (download_if_absent ex self u file w)))"
  by (simp add: download_if_absent_def Let_def split: option.split prod.split)

lemma effects_load_csv_grow:
  "length (effects w) < length (effects (snd (load_csv ex self file w)))"
  by (simp add: load_csv_def Let_def split: sum.split prod.split)

lemma create_dataset_snd:
  assumes "select_url self = Inr u"
  shows "snd (create_dataset ex self w) =
     (let file = os_path_join (data_dir self) (name self @ ''.csv'');
          r = download_if_absent ex self u file w
      in if fst r = None then snd (load_csv ex self file (snd r)) else snd r)"
  using assms
  by (simp add: create_dataset_def Let_def split: prod.split option.split)

lemma create_dataset_fst:
  assumes "select_url self = Inr u"
  shows "fst (create_dataset ex self w) =
     (let file = os_path_join (data_dir self) (name self @ ''.csv'');
          r = download_if_absent ex self u file w
      in case fst r of Some e \<Rightarrow> Inl e | None \<Rightarrow> fst (load_csv ex self file (snd r)))"
  using assms
  by (simp add: create_dataset_def Let_def split: prod.split option.split)

lemma create_dataset_rejected:
  assumes "select_url self = Inl e"
  shows "create_dataset ex self w = (Inl e, w)"
  using assms by (simp add: create_dataset_def)

lemma download_if_absent_ok:
  assumes "os_path_exists ex (fs w) file \<or> fst (download_url ex url (data_dir self) (fs w)) = None"
  shows "fst (download_if_absent ex self (Some url) file w) = None"
  using assms
  by (auto simp: download_if_absent_def Let_def split: option.split prod.split)

lemma fst_load_csv:
  assumes "CSVLoader ex (tasks self) ''reactions'' (featurizer self) = Inr loader"
  shows "fst (load_csv ex self file w) = fst (CSVLoader_create_dataset ex loader file 8192 (fs w))"
  using assms by (simp add: load_csv_def Let_def split: prod.split)

lemma csv_create_dataset:
  "\<exists>evs. filter is_csv (effects (snd (create_dataset ex self w))) = filter is_csv (effects w) @ evs \<and>
         prefix evs [CSVLoader_new (tasks self) ''reactions'' (featurizer self),
                     Loader_create_dataset (os_path_join (data_dir self) (name self @ ''.csv'')) 8192]"
proof (cases "select_url self")
  case (Inl e)
  then show ?thesis
    by (simp add: create_dataset_rejected)
next
  case (Inr u)
  show ?thesis
    by (simp add: create_dataset_snd [OF Inr] Let_def csv_load_csv csv_download_if_absent
        split: sum.split)
qed

text \<open>The definitions of the concrete world, for evaluation.\<close>

lemmas fixture_defs =
  loader_50K_def loader_full_specified_def loader_full_def loader_bogus_def
  USPTOLoader_init_def base_dummy_def base_specified_def world_empty_def world_cached_def
  ex_online_def

subsection \<open>Downloads\<close>

text \<open>
  C3.  For a recognized subset, \<open>create_dataset\<close> performs exactly one download, of
  the subset's URL into the data directory, when the file \<open>USPTO_<subset>.csv\<close> does
  not exist in the data directory, and no download when it exists.  The loader's
  \<open>name\<close> is the one \<^verbatim>\<open>__init__\<close> sets.  The hypothesis on the splitter leaves out
  only the string \<open>'SpecifiedSplitter'\<close> with the subset \<open>FULL\<close>, a value that the
  attribute of a loader built by \<open>load_uspto\<close> never has; it holds of every loader
  whose splitter is \<^verbatim>\<open>None\<close> or a splitter object.
\<close>

theorem create_dataset_downloads:
  assumes "map_of [(''MIT'', USPTO_MIT_URL), (''STEREO'', USPTO_STEREO_URL),
                   (''50K'', USPTO_50K_URL), (''FULL'', USPTO_FULL_URL)] (subset_name self)
             = Some url"
    and "\<not> (subset_name self = ''FULL'' \<and> splitter self = Splitter_str ''SpecifiedSplitter'')"
    and "name self = ''USPTO_'' @ subset_name self"
  shows "filter is_download (effects (snd (create_dataset ex self w))) =
         filter is_download (effects w) @
           (if os_path_exists ex (fs w)
                 (os_path_join (data_dir self) (''USPTO_'' @ subset_name self @ ''.csv''))
            then [] else [Download_url url (data_dir self)])"
proof -
  have sel: "select_url self = Inr (Some url)"
    using assms(1,2) by (rule select_url_accepted)
  show ?thesis
    by (simp add: create_dataset_snd [OF sel] Let_def assms(3)
        downloads_load_csv downloads_download_if_absent)
qed

theorem create_dataset_downloads_witness:
  "filter is_download (effects (snd (create_dataset ex_online loader_50K world_empty)))
     = [Download_url USPTO_50K_URL ''data''] \<and>
   filter is_download (effects (snd (create_dataset ex_online loader_50K world_cached))) = []"
proof -
  have url: "map_of [(''MIT'', USPTO_MIT_URL), (''STEREO'', USPTO_STEREO_URL),
                   (''50K'', USPTO_50K_URL), (''FULL'', USPTO_FULL_URL)] (subset_name loader_50K)
             = Some USPTO_50K_URL"
    by (simp add: fixture_defs)
  have ok: "\<not> (subset_name loader_50K = ''FULL'' \<and>
               splitter loader_50K = Splitter_str ''SpecifiedSplitter'')"
    by (simp add: fixture_defs)
  have nm: "name loader_50K = ''USPTO_'' @ subset_name loader_50K"
    by (simp add: fixture_defs)
  have absent: "\<not> os_path_exists ex_online (fs world_empty)
      (os_path_join (data_dir loader_50K) (''USPTO_'' @ subset_name loader_50K @ ''.csv''))"
    by (simp add: fixture_defs)
  have present: "os_path_exists ex_online (fs world_cached)
      (os_path_join (data_dir loader_50K) (''USPTO_'' @ subset_name loader_50K @ ''.csv''))"
    by (simp add: fixture_defs os_path_join_def suffix_to_prefix)
  have dir: "data_dir loader_50K = ''data''"
    by (simp add: fixture_defs)
  have e1: "effects world_empty = []" and e2: "effects world_cached = []"
    by (simp_all add: fixture_defs)
  from create_dataset_downloads [OF url ok nm, of ex_online world_empty] absent dir e1
  have one: "filter is_download (effects (snd (create_dataset ex_online loader_50K world_empty)))
     = [Download_url USPTO_50K_URL ''data'']"
    by simp
  from create_dataset_downloads [OF url ok nm, of ex_online world_cached] present e2
  have none: "filter is_download (effects (snd (create_dataset ex_online loader_50K world_cached)))
     = []"
    by simp
  from one none show ?thesis by blast
qed

subsection \<open>Validation\<close>

text \<open>
  C4.  For a subset that is none of \<open>MIT\<close>, \<open>STEREO\<close>, \<open>50K\<close>, \<open>FULL\<close>,
  \<open>create_dataset\<close> raises a \<open>ValueError\<close> and leaves the world as it found it: no
  call to the outside is made and the file system is untouched.
\<close>

theorem create_dataset_invalid_subset:
  assumes "subset_name self \<notin> set [''MIT'', ''STEREO'', ''50K'', ''FULL'']"
  shows "\<exists>msg. create_dataset ex self w = (Inl (ValueError msg), w)"
  by (simp add: create_dataset_def select_url_invalid [OF assms])

theorem create_dataset_invalid_subset_witness:
  "subset_name loader_bogus \<notin> set [''MIT'', ''STEREO'', ''50K'', ''FULL''] \<and>
   (\<exists>msg. create_dataset ex_online loader_bogus world_empty = (Inl (ValueError msg), world_empty))"
proof -
  have bogus: "subset_name loader_bogus \<notin> set [''MIT'', ''STEREO'', ''50K'', ''FULL'']"
    by (simp add: fixture_defs)
  from create_dataset_invalid_subset [OF bogus, of ex_online world_empty] bogus
  show ?thesis by blast
qed


subsection \<open>The flag \<open>sep_reagent\<close>\<close>

text \<open>
  C9.  Two runs of \<open>create_dataset\<close> on loaders that differ only in \<open>sep_reagent\<close>,
  in the same world, have the same outcome and leave the same world.
\<close>

theorem create_dataset_sep_reagent:
  "create_dataset ex (self\<lparr>sep_reagent := b\<rparr>) w = create_dataset ex self w \<and>
   create_dataset ex (USPTOLoader_init base sub True) w =
   create_dataset ex (USPTOLoader_init base sub False) w"
proof
  show flip: "create_dataset ex (self\<lparr>sep_reagent := b\<rparr>) w = create_dataset ex self w" for self b
    by (simp add: create_dataset_def select_url_sep download_if_absent_sep load_csv_sep Let_def
      cong: sum.case_cong prod.case_cong option.case_cong)
  have "USPTOLoader_init base sub True = (USPTOLoader_init base sub False)\<lparr>sep_reagent := True\<rparr>"
    by (simp add: USPTOLoader_init_def)
  then show "create_dataset ex (USPTOLoader_init base sub True) w =
   create_dataset ex (USPTOLoader_init base sub False) w"
    by (simp only: flip)
qed

theorem create_dataset_sep_reagent_witness:
  "create_dataset ex_online (USPTOLoader_init base_dummy ''50K'' True) world_empty =
   create_dataset ex_online (USPTOLoader_init base_dummy ''50K'' False) world_empty"
  using create_dataset_sep_reagent [of ex_online _ _ world_empty base_dummy "''50K''"]
  by (rule conjunct2)


subsection \<open>The CSV loader\<close>

text \<open>
  C8.  On a loader whose task list is \<open>USPTO_TASK\<close>, as \<open>load_uspto\<close> passes it:
  \<^item> the only calls to the CSV loader that \<open>create_dataset\<close> makes are, in this order,
    its construction with the empty task list, the feature field \<open>reactions\<close> and the
    loader's featurizer, and its \<open>create_dataset\<close> on the file \<open>name.csv\<close> of the
    data directory with shard size 8192;
  \<^item> for a recognized subset that is not rejected, when the file exists or the download
    raises nothing, the construction is made, and when it succeeds the second call is
    made and its outcome is the outcome of \<open>create_dataset\<close>.
\<close>

theorem create_dataset_csv_loader:
  assumes "tasks self = USPTO_TASK"
  shows "(\<exists>evs. filter is_csv (effects (snd (create_dataset ex self w)))
                  = filter is_csv (effects w) @ evs \<and>
               prefix evs
                 [CSVLoader_new [] ''reactions'' (featurizer self),
                  Loader_create_dataset (os_path_join (data_dir self) (name self @ ''.csv''))
                    8192]) \<and>
         (map_of [(''MIT'', USPTO_MIT_URL), (''STEREO'', USPTO_STEREO_URL),
                  (''50K'', USPTO_50K_URL), (''FULL'', USPTO_FULL_URL)] (subset_name self)
            = Some url \<and>
          \<not> (subset_name self = ''FULL'' \<and> splitter self = Splitter_str ''SpecifiedSplitter'') \<and>
          (os_path_exists ex (fs w) (os_path_join (data_dir self) (name self @ ''.csv'')) \<or>
           fst (download_url ex url (data_dir self) (fs w)) = None) \<longrightarrow>
          filter is_csv (effects (snd (create_dataset ex self w))) =
            filter is_csv (effects w) @
              (CSVLoader_new [] ''reactions'' (featurizer self) #
               (case CSVLoader ex [] ''reactions'' (featurizer self) of
                  Inl e \<Rightarrow> []
                | Inr loader \<Rightarrow>
                    [Loader_create_dataset
                       (os_path_join (data_dir self) (name self @ ''.csv'')) 8192])) \<and>
          (\<forall>loader. CSVLoader ex [] ''reactions'' (featurizer self) = Inr loader \<longrightarrow>
             (\<exists>fs1. fst (create_dataset ex self w) =
                fst (CSVLoader_create_dataset ex loader
                       (os_path_join (data_dir self) (name self @ ''.csv'')) 8192 fs1))))"
proof (intro conjI impI allI)
  have ts: "tasks self = []"
    using assms by (simp add: USPTO_TASK_def)
  show "\<exists>evs. filter is_csv (effects (snd (create_dataset ex self w)))
                  = filter is_csv (effects w) @ evs \<and>
               prefix evs
                 [CSVLoader_new [] ''reactions'' (featurizer self),
                  Loader_create_dataset (os_path_join (data_dir self) (name self @ ''.csv''))
                    8192]"
    using csv_create_dataset [of ex self w] by (simp only: ts)
  let ?file = "os_path_join (data_dir self) (name self @ ''.csv'')"
  assume run: "map_of [(''MIT'', USPTO_MIT_URL), (''STEREO'', USPTO_STEREO_URL),
                  (''50K'', USPTO_50K_URL), (''FULL'', USPTO_FULL_URL)] (subset_name self)
            = Some url \<and>
          \<not> (subset_name self = ''FULL'' \<and> splitter self = Splitter_str ''SpecifiedSplitter'') \<and>
          (os_path_exists ex (fs w) ?file \<or>
           fst (download_url ex url (data_dir self) (fs w)) = None)"
  then have sel: "select_url self = Inr (Some url)"
    by (simp add: select_url_accepted)
  from run have fetched: "fst (download_if_absent ex self (Some url) ?file w) = None"
    by (simp add: download_if_absent_ok)
  show "filter is_csv (effects (snd (create_dataset ex self w))) =
            filter is_csv (effects w) @
              (CSVLoader_new [] ''reactions'' (featurizer self) #
               (case CSVLoader ex [] ''reactions'' (featurizer self) of
                  Inl e \<Rightarrow> []
                | Inr loader \<Rightarrow> [Loader_create_dataset ?file 8192]))"
    using fetched
    by (simp add: create_dataset_snd [OF sel] Let_def csv_load_csv csv_download_if_absent ts)
  fix loader
  assume built: "CSVLoader ex [] ''reactions'' (featurizer self) = Inr loader"
  then have built': "CSVLoader ex (tasks self) ''reactions'' (featurizer self) = Inr loader"
    by (simp add: ts)
  have "fst (create_dataset ex self w) =
      fst (CSVLoader_create_dataset ex loader ?file 8192
             (fs (snd (download_if_absent ex self (Some url) ?file w))))"
    using fetched
    by (simp add: create_dataset_fst [OF sel] Let_def fst_load_csv [OF built'])
  then show "\<exists>fs1. fst (create_dataset ex self w) =
      fst (CSVLoader_create_dataset ex loader ?file 8192 fs1)"
    by blast
qed

theorem create_dataset_csv_loader_witness:
  "tasks loader_50K = USPTO_TASK \<and>
   os_path_exists ex_online (fs world_cached) ''data/USPTO_50K.csv'' \<and>
   filter is_csv (effects (snd (create_dataset ex_online loader_50K world_cached))) =
     [CSVLoader_new [] ''reactions'' ''DummyFeaturizer'',
      Loader_create_dataset ''data/USPTO_50K.csv'' 8192] \<and>
   (\<exists>fs1. fst (create_dataset ex_online loader_50K world_cached) =
      fst (CSVLoader_create_dataset ex_online ([], ''reactions'', ''DummyFeaturizer'')
             ''data/USPTO_50K.csv'' 8192 fs1))"
proof -
  have ts: "tasks loader_50K = USPTO_TASK"
    by (simp add: fixture_defs)
  have run: "map_of [(''MIT'', USPTO_MIT_URL), (''STEREO'', USPTO_STEREO_URL),
                  (''50K'', USPTO_50K_URL), (''FULL'', USPTO_FULL_URL)] (subset_name loader_50K)
            = Some USPTO_50K_URL \<and>
          \<not> (subset_name loader_50K = ''FULL'' \<and>
             splitter loader_50K = Splitter_str ''SpecifiedSplitter'') \<and>
          (os_path_exists ex_online (fs world_cached)
             (os_path_join (data_dir loader_50K) (name loader_50K @ ''.csv'')) \<or>
           fst (download_url ex_online USPTO_50K_URL (data_dir loader_50K) (fs world_cached))
             = None)"
    by (simp add: fixture_defs os_path_join_def suffix_to_prefix)
  have path: "os_path_join (data_dir loader_50K) (name loader_50K @ ''.csv'')
      = ''data/USPTO_50K.csv''"
    by (simp add: fixture_defs os_path_join_def suffix_to_prefix)
  have f: "featurizer loader_50K = ''DummyFeaturizer''"
    by (simp add: fixture_defs)
  have built: "CSVLoader ex_online [] ''reactions'' ''DummyFeaturizer''
      = Inr ([], ''reactions'', ''DummyFeaturizer'')"
    by (simp add: fixture_defs)
  have e: "effects world_cached = []"
    by (simp add: fixture_defs)
  from create_dataset_csv_loader [OF ts, of ex_online world_cached USPTO_50K_URL] run
  have "filter is_csv (effects (snd (create_dataset ex_online loader_50K world_cached))) =
            filter is_csv (effects world_cached) @
              (CSVLoader_new [] ''reactions'' (featurizer loader_50K) #
               (case CSVLoader ex_online [] ''reactions'' (featurizer loader_50K) of
                  Inl e \<Rightarrow> []
                | Inr loader \<Rightarrow>
                    [Loader_create_dataset
                       (os_path_join (data_dir loader_50K) (name loader_50K @ ''.csv'')) 8192]))"
    by blast
  then have calls: "filter is_csv (effects (snd (create_dataset ex_online loader_50K world_cached))) =
     [CSVLoader_new [] ''reactions'' ''DummyFeaturizer'',
      Loader_create_dataset ''data/USPTO_50K.csv'' 8192]"
    by (simp add: path f built e)
  from create_dataset_csv_loader [OF ts, of ex_online world_cached USPTO_50K_URL] run
  have "\<forall>loader. CSVLoader ex_online [] ''reactions'' (featurizer loader_50K) = Inr loader \<longrightarrow>
     (\<exists>fs1. fst (create_dataset ex_online loader_50K world_cached) =
        fst (CSVLoader_create_dataset ex_online loader
               (os_path_join (data_dir loader_50K) (name loader_50K @ ''.csv'')) 8192 fs1))"
    by blast
  with built have outcome: "\<exists>fs1. fst (create_dataset ex_online loader_50K world_cached) =
      fst (CSVLoader_create_dataset ex_online ([], ''reactions'', ''DummyFeaturizer'')
             ''data/USPTO_50K.csv'' 8192 fs1)"
    by (simp add: path f)
  have cached: "os_path_exists ex_online (fs world_cached) ''data/USPTO_50K.csv''"
    by (simp add: fixture_defs)
  from ts cached calls outcome show ?thesis by blast
qed

subsection \<open>The message of the subset check\<close>

text \<open>
  C10.  The error raised for an unrecognized subset has the message
  \<open>Valid Subset names are MIT, STEREO and 50K.\<close>  The message does not contain
  \<open>FULL\<close>, and yet the subset \<open>FULL\<close> passes the check that raises it: with another
  splitter than \<open>'SpecifiedSplitter'\<close> the call goes on to the calls to the outside.
\<close>

theorem subset_message_omits_FULL:
  "(subset_name self \<notin> set [''MIT'', ''STEREO'', ''50K'', ''FULL''] \<longrightarrow>
      fst (create_dataset ex self w)
        = Inl (ValueError ''Valid Subset names are MIT, STEREO and 50K.'')) \<and>
   \<not> sublist ''FULL'' ''Valid Subset names are MIT, STEREO and 50K.'' \<and>
   (subset_name self = ''FULL'' \<longrightarrow>
      select_url self \<noteq> Inl (ValueError ''Valid Subset names are MIT, STEREO and 50K.'') \<and>
      (splitter self \<noteq> Splitter_str ''SpecifiedSplitter'' \<longrightarrow>
         length (effects w) < length (effects (snd (create_dataset ex self w)))))"
proof (intro conjI impI)
  assume "subset_name self \<notin> set [''MIT'', ''STEREO'', ''50K'', ''FULL'']"
  then show "fst (create_dataset ex self w)
        = Inl (ValueError ''Valid Subset names are MIT, STEREO and 50K.'')"
    by (simp add: create_dataset_def select_url_invalid)
next
  show "\<not> sublist ''FULL'' ''Valid Subset names are MIT, STEREO and 50K.''"
    by code_simp
next
  assume full: "subset_name self = ''FULL''"
  then show "select_url self \<noteq> Inl (ValueError ''Valid Subset names are MIT, STEREO and 50K.'')"
    by (simp add: select_url_def)
  assume other: "splitter self \<noteq> Splitter_str ''SpecifiedSplitter''"
  have sel: "select_url self = Inr (Some USPTO_FULL_URL)"
    using full other by (rule select_url_full_other)
  let ?file = "os_path_join (data_dir self) (name self @ ''.csv'')"
  let ?w1 = "snd (download_if_absent ex self (Some USPTO_FULL_URL) ?file w)"
  have a: "length (effects w) \<le> length (effects ?w1)"
    by (rule effects_download_if_absent_grow)
  have b: "length (effects ?w1) < length (effects (snd (load_csv ex self ?file ?w1)))"
    by (rule effects_load_csv_grow)
  have c: "fst (download_if_absent ex self (Some USPTO_FULL_URL) ?file w) \<noteq> None \<Longrightarrow>
      length (effects w) < length (effects ?w1)"
    by (simp add: download_if_absent_def Let_def split: option.split prod.split if_splits)
  show "length (effects w) < length (effects (snd (create_dataset ex self w)))"
    using a b c by (auto simp: create_dataset_snd [OF sel] Let_def)
qed

theorem subset_message_omits_FULL_witness:
  "subset_name loader_bogus \<notin> set [''MIT'', ''STEREO'', ''50K'', ''FULL''] \<and>
   fst (create_dataset ex_online loader_bogus world_empty)
     = Inl (ValueError ''Valid Subset names are MIT, STEREO and 50K.'') \<and>
   subset_name loader_full = ''FULL'' \<and>
   splitter loader_full \<noteq> Splitter_str ''SpecifiedSplitter'' \<and>
   length (effects world_empty)
     < length (effects (snd (create_dataset ex_online loader_full world_empty)))"
proof -
  have bogus: "subset_name loader_bogus \<notin> set [''MIT'', ''STEREO'', ''50K'', ''FULL'']"
    by (simp add: fixture_defs)
  have full: "subset_name loader_full = ''FULL''"
    by (simp add: fixture_defs)
  have other: "splitter loader_full \<noteq> Splitter_str ''SpecifiedSplitter''"
    by (simp add: fixture_defs)
  from subset_message_omits_FULL [of loader_bogus ex_online world_empty] bogus
  have r1: "fst (create_dataset ex_online loader_bogus world_empty)
     = Inl (ValueError ''Valid Subset names are MIT, STEREO and 50K.'')"
    by blast
  from subset_message_omits_FULL [of loader_full ex_online world_empty] full other
  have r2: "length (effects world_empty)
     < length (effects (snd (create_dataset ex_online loader_full world_empty)))"
    by blast
  from bogus full other r1 r2 show ?thesis by blast
qed

end
